theory Spec2Isabelle
  imports Main "HOL-Library.Sublist"
begin

section \<open>The device-bridge script: data model\<close>

text \<open>
  The script (\<^verbatim>\<open>adb.py\<close>, \<^verbatim>\<open>main.py\<close>) is a sequence of calls to an external
  executable, of prompts on standard input and of lines printed on standard output.
  Everything it does to the outside world is recorded as an event in a trace; what the
  outside world answers is a parameter of the model (\<open>env\<close>) and may depend on the whole
  trace so far. A Python exception is a value of type \<open>error\<close>: every function returns
  its result (\<open>Inr\<close>) or the exception it raised (\<open>Inl\<close>) together with the trace.

  Strings are lists of characters; a character is a code point below 256. Python's
  limit on the number of digits that \<^verbatim>\<open>int\<close> and \<^verbatim>\<open>str\<close> convert (a setting of
  the interpreter) is not modelled.
\<close>

datatype error =
    CalledProcessError
  | ParseError
  | ValueError
  | AttributeError
  | TypeError
  | IndexError
  | OtherError string

datatype event =
    Adb "string list"
  | Input string
  | Print string
  | Sleep nat
  | Mkdir string

type_synonym trace = "event list"

text \<open>An element of the parsed UI-hierarchy dump, as \<^verbatim>\<open>xml.etree.ElementTree\<close> gives it.\<close>

datatype element = Element (tag: string) (attrib: "(string \<times> string) list") (children: "element list")

text \<open>
  The outside world. \<open>adb_reply\<close> is what \<^verbatim>\<open>subprocess.run(command, check=True, ...)\<close>
  does after the events so far: the captured standard output, or the exception raised.
  \<open>fromstring\<close> is the XML parser of the standard library (\<open>None\<close>: the document is
  malformed), \<open>sapps\<close> the path \<^verbatim>\<open>Path.home() / "sapps"\<close> as a string.
\<close>

record env =
  adb_reply :: "trace \<Rightarrow> string list \<Rightarrow> error + string"
  input_reply :: "trace \<Rightarrow> string \<Rightarrow> error + string"
  mkdir_reply :: "trace \<Rightarrow> string \<Rightarrow> error option"
  fromstring :: "string \<Rightarrow> element option"
  sapps :: string

section \<open>The string operations of Python that the script uses\<close>

definition newline :: char where
  "newline = CHR 0x0A"

text \<open>\<^verbatim>\<open>str.isspace\<close> on one character (code points below 256).\<close>

definition is_space :: "char \<Rightarrow> bool" where
  "is_space c = (of_char c \<in> set [9, 10, 11, 12, 13, 28, 29, 30, 31, 32, 133, 160 :: nat])"

text \<open>\<^verbatim>\<open>s.strip(chars)\<close> and \<^verbatim>\<open>s.strip()\<close>.\<close>

definition str_strip :: "string \<Rightarrow> string \<Rightarrow> string" where
  "str_strip chars s =
     rev (dropWhile (\<lambda>c. c \<in> set chars) (rev (dropWhile (\<lambda>c. c \<in> set chars) s)))"

definition str_strip_ws :: "string \<Rightarrow> string" where
  "str_strip_ws s = rev (dropWhile is_space (rev (dropWhile is_space s)))"

text \<open>
  \<^verbatim>\<open>s.replace(old, new)\<close>: the occurrences of \<open>old\<close> are replaced from the left and do
  not overlap; an empty \<open>old\<close> matches before every character and at the end.
\<close>

function str_replace :: "string \<Rightarrow> string \<Rightarrow> string \<Rightarrow> string" where
  "str_replace old new [] = (if old = [] then new else [])"
| "str_replace old new (c # cs) =
     (if old = [] then new @ c # str_replace old new cs
      else if prefix old (c # cs) then new @ str_replace old new (drop (length old) (c # cs))
      else c # str_replace old new cs)"
  by pat_completeness auto
termination
  by (relation "measure (\<lambda>(old, new, s). length s)") auto

text \<open>\<^verbatim>\<open>s.split(sep)\<close> for a separator of one character, as at both call sites.\<close>

fun str_split :: "char \<Rightarrow> string \<Rightarrow> string list" where
  "str_split sep [] = [[]]"
| "str_split sep (c # cs) =
     (if c = sep then [] # str_split sep cs
      else (case str_split sep cs of
              [] \<Rightarrow> [[c]]
            | w # ws \<Rightarrow> (c # w) # ws))"

text \<open>\<^verbatim>\<open>s.splitlines()\<close>: a line ends at a line boundary; \<^verbatim>\<open>\r\n\<close> is one boundary.\<close>

definition is_linebreak :: "char \<Rightarrow> bool" where
  "is_linebreak c = (of_char c \<in> set [10, 11, 12, 13, 28, 29, 30, 133 :: nat])"

fun splitlines_acc :: "string \<Rightarrow> string \<Rightarrow> string list" where
  "splitlines_acc acc [] = (if acc = [] then [] else [rev acc])"
| "splitlines_acc acc [c] = (if is_linebreak c then [rev acc] else [rev (c # acc)])"
| "splitlines_acc acc (c # d # ds) =
     (if c = CHR 0x0D \<and> d = CHR 0x0A then rev acc # splitlines_acc [] ds
      else if is_linebreak c then rev acc # splitlines_acc [] (d # ds)
      else splitlines_acc (c # acc) (d # ds))"

definition splitlines :: "string \<Rightarrow> string list" where
  "splitlines s = splitlines_acc [] s"

text \<open>\<^verbatim>\<open>a in b\<close> on strings: \<open>a\<close> occurs in \<open>b\<close> as a contiguous substring.\<close>

fun str_in :: "string \<Rightarrow> string \<Rightarrow> bool" where
  "str_in a [] = (a = [])"
| "str_in a (c # cs) = (prefix a (c # cs) \<or> str_in a cs)"

text \<open>\<^verbatim>\<open>str(n)\<close> for an integer: decimal digits, a minus sign when negative.\<close>

definition digit_char :: "nat \<Rightarrow> char" where
  "digit_char d = char_of (48 + d)"

function str_nat :: "nat \<Rightarrow> string" where
  "str_nat n = (if n < 10 then [digit_char n] else str_nat (n div 10) @ [digit_char (n mod 10)])"
  by pat_completeness auto
termination
  by (relation "measure (\<lambda>n. n)") auto

definition str_int :: "int \<Rightarrow> string" where
  "str_int i = (if i < 0 then CHR ''-'' # str_nat (nat (- i)) else str_nat (nat i))"

text \<open>
  \<^verbatim>\<open>int(s)\<close> on a string: surrounding whitespace is dropped, a sign may come first, then
  decimal digits, where one underscore may stand between two digits. Anything else
  raises \<^verbatim>\<open>ValueError\<close>.
\<close>

definition digit_val :: "char \<Rightarrow> nat option" where
  "digit_val c =
     (let k = (of_char c :: nat) in if 48 \<le> k \<and> k \<le> 57 then Some (k - 48) else None)"

fun digits_acc :: "nat \<Rightarrow> string \<Rightarrow> nat option" where
  "digits_acc n [] = Some n"
| "digits_acc n [c] = (case digit_val c of None \<Rightarrow> None | Some v \<Rightarrow> Some (10 * n + v))"
| "digits_acc n (c # d # ds) =
     (if c = CHR ''_'' then
        (case digit_val d of None \<Rightarrow> None | Some v \<Rightarrow> digits_acc (10 * n + v) ds)
      else (case digit_val c of None \<Rightarrow> None | Some v \<Rightarrow> digits_acc (10 * n + v) (d # ds)))"

definition parse_digits :: "string \<Rightarrow> nat option" where
  "parse_digits s =
     (case s of
        [] \<Rightarrow> None
      | c # cs \<Rightarrow> (case digit_val c of None \<Rightarrow> None | Some v \<Rightarrow> digits_acc v cs))"

definition py_int :: "string \<Rightarrow> error + int" where
  "py_int s =
     (let t = str_strip_ws s;
          neg = (t \<noteq> [] \<and> hd t = CHR ''-'');
          body = (if t \<noteq> [] \<and> (hd t = CHR ''-'' \<or> hd t = CHR ''+'') then tl t else t)
      in case parse_digits body of
           None \<Rightarrow> Inl ValueError
         | Some n \<Rightarrow> Inr (if neg then - int n else int n))"

section \<open>Effects: the trace and the exceptions\<close>

type_synonym 'a io = "trace \<Rightarrow> (error + 'a) \<times> trace"

definition return_io :: "'a \<Rightarrow> 'a io" where
  "return_io x s = (Inr x, s)"

definition raise_io :: "error \<Rightarrow> 'a io" where
  "raise_io e s = (Inl e, s)"

text \<open>Sequencing: an exception of the first part ends the whole.\<close>

definition bind_io :: "'a io \<Rightarrow> ('a \<Rightarrow> 'b io) \<Rightarrow> 'b io" where
  "bind_io m f s = (case m s of (Inl e, s') \<Rightarrow> (Inl e, s') | (Inr x, s') \<Rightarrow> f x s')"

definition print_io :: "string \<Rightarrow> unit io" where
  "print_io text s = (Inr (), s @ [Print text])"

definition input_io :: "env \<Rightarrow> string \<Rightarrow> string io" where
  "input_io env prompt s = (input_reply env s prompt, s @ [Input prompt])"

definition sleep :: "nat \<Rightarrow> unit io" where
  "sleep secs s = (Inr (), s @ [Sleep secs])"

definition mkdir :: "env \<Rightarrow> string \<Rightarrow> unit io" where
  "mkdir env path s =
     ((case mkdir_reply env s path of Some e \<Rightarrow> Inl e | None \<Rightarrow> Inr ()), s @ [Mkdir path])"

text \<open>A \<^verbatim>\<open>for\<close> loop over a list whose body returns nothing.\<close>

fun for_each :: "('a \<Rightarrow> unit io) \<Rightarrow> 'a list \<Rightarrow> unit io" where
  "for_each body [] s = (Inr (), s)"
| "for_each body (x # xs) s =
     (case body x s of (Inl e, s') \<Rightarrow> (Inl e, s') | (Inr u, s') \<Rightarrow> for_each body xs s')"

section \<open>\<^verbatim>\<open>adb.py\<close>\<close>

definition run_adb_command :: "env \<Rightarrow> string list \<Rightarrow> string io" where
  "run_adb_command env command s = (adb_reply env s command, s @ [Adb command])"

definition pair :: "env \<Rightarrow> string \<Rightarrow> string \<Rightarrow> unit io" where
  "pair env url pairing_code =
     bind_io (run_adb_command env [''adb'', ''pair'', url, pairing_code]) (\<lambda>_. return_io ())"

definition extract' :: "env \<Rightarrow> string \<Rightarrow> string \<Rightarrow> unit io" where
  "extract' env package_name target =
     bind_io (run_adb_command env [''adb'', ''shell'', ''pm'', ''path'', package_name])
       (\<lambda>stdout.
          case str_split newline (str_replace ''package:'' [] (str_strip_ws stdout)) of
            [] \<Rightarrow> raise_io IndexError
          | apk_path # _ \<Rightarrow>
              if apk_path \<noteq> [] then
                bind_io (run_adb_command env
                           [''adb'', ''pull'', apk_path, target @ ''/'' @ package_name @ ''.apk''])
                  (\<lambda>_. return_io ())
              else return_io ())"

definition connect :: "env \<Rightarrow> string \<Rightarrow> unit io" where
  "connect env url =
     bind_io (run_adb_command env [''adb'', ''connect'', url]) (\<lambda>_. return_io ())"

definition is_connected :: "env \<Rightarrow> bool io" where
  "is_connected env =
     bind_io (run_adb_command env [''adb'', ''devices''])
       (\<lambda>stdout. return_io (list_ex (\<lambda>deviceinfo. str_in ''device'' deviceinfo)
                               (tl (splitlines stdout))))"

definition is_installed :: "env \<Rightarrow> string \<Rightarrow> bool io" where
  "is_installed env package_name =
     bind_io (run_adb_command env [''adb'', ''shell'', ''pm'', ''list'', ''packages'', package_name])
       (\<lambda>stdout. return_io (str_in package_name stdout))"

definition is_enabled :: "env \<Rightarrow> string \<Rightarrow> bool io" where
  "is_enabled env package_name =
     bind_io (run_adb_command env [''adb'', ''shell'', ''pm'', ''list'', ''packages'', ''-e''])
       (\<lambda>stdout. return_io (str_in package_name stdout))"

definition install :: "env \<Rightarrow> string \<Rightarrow> unit io" where
  "install env apk_path =
     bind_io (run_adb_command env [''adb'', ''install'', apk_path]) (\<lambda>_. return_io ())"

definition clear_data :: "env \<Rightarrow> string \<Rightarrow> unit io" where
  "clear_data env package_name =
     bind_io (run_adb_command env [''adb'', ''shell'', ''pm'', ''clear'', package_name])
       (\<lambda>_. return_io ())"

text \<open>
  \<^verbatim>\<open>try: ... except: pass finally: ...\<close>: whatever the first command does, the second
  runs, and its exception is the function's.
\<close>

definition uninstall :: "env \<Rightarrow> string \<Rightarrow> unit io" where
  "uninstall env package_name s =
     (case run_adb_command env [''adb'', ''uninstall'', package_name] s of
        (r, s') \<Rightarrow>
          bind_io (run_adb_command env [''adb'', ''uninstall'', ''--user'', ''0'', package_name])
            (\<lambda>_. return_io ()) s')"

definition enable :: "env \<Rightarrow> string \<Rightarrow> unit io" where
  "enable env package_name =
     bind_io (run_adb_command env [''adb'', ''shell'', ''pm'', ''enable'', package_name])
       (\<lambda>_. return_io ())"

definition disable :: "env \<Rightarrow> string \<Rightarrow> unit io" where
  "disable env package_name s =
     (case run_adb_command env [''adb'', ''uninstall'', package_name] s of
        (r, s') \<Rightarrow>
          bind_io (run_adb_command env [''adb'', ''shell'', ''pm'', ''disable-user'', package_name])
            (\<lambda>_. return_io ()) s')"

definition tap :: "env \<Rightarrow> int \<Rightarrow> int \<Rightarrow> unit io" where
  "tap env x y =
     bind_io (run_adb_command env [''adb'', ''shell'', ''input'', ''tap'', str_int x, str_int y])
       (\<lambda>_. return_io ())"

subsection \<open>The locator\<close>

text \<open>
  \<^verbatim>\<open>root.findall(".//node")\<close>: the elements below the root, at any depth, whose tag is
  \<^verbatim>\<open>node\<close>, in document order; the root itself is not among them.
\<close>

fun iter :: "element \<Rightarrow> element list" where
  "iter (Element t a cs) = Element t a cs # concat (map iter cs)"

definition findall_node :: "element \<Rightarrow> element list" where
  "findall_node root = filter (\<lambda>e. tag e = ''node'') (concat (map iter (children root)))"

text \<open>\<^verbatim>\<open>node.attrib.get(key)\<close>\<close>

definition attrib_get :: "element \<Rightarrow> string \<Rightarrow> string option" where
  "attrib_get node key = map_of (attrib node) key"

text \<open>\<^verbatim>\<open>next((node for node in nodes if node.attrib.get("text") == "Install"), None)\<close>\<close>

definition install_button :: "element list \<Rightarrow> element option" where
  "install_button nodes = find (\<lambda>node. attrib_get node ''text'' = Some ''Install'') nodes"

text \<open>
  Lines 285 to 291: the four integers of the bounds attribute and the centre of the
  rectangle. Without the attribute, \<^verbatim>\<open>.replace\<close> is called on \<^verbatim>\<open>None\<close>; a field that
  is no integer, or a number of fields other than four, is a \<^verbatim>\<open>ValueError\<close>.
\<close>

fun map_int :: "string list \<Rightarrow> error + int list" where
  "map_int [] = Inr []"
| "map_int (w # ws) =
     (case py_int w of
        Inl e \<Rightarrow> Inl e
      | Inr i \<Rightarrow> (case map_int ws of Inl e \<Rightarrow> Inl e | Inr is \<Rightarrow> Inr (i # is)))"

definition bounds_fields :: "string \<Rightarrow> string list" where
  "bounds_fields bounds = str_split CHR '','' (str_strip ''[]'' (str_replace '']['' '','' bounds))"

definition center :: "string \<Rightarrow> error + int \<times> int" where
  "center bounds =
     (case map_int (bounds_fields bounds) of
        Inl e \<Rightarrow> Inl e
      | Inr [x1, y1, x2, y2] \<Rightarrow> Inr ((x1 + x2) div 2, (y1 + y2) div 2)
      | Inr _ \<Rightarrow> Inl ValueError)"

definition button_center :: "element \<Rightarrow> error + int \<times> int" where
  "button_center button =
     (case attrib_get button ''bounds'' of
        None \<Rightarrow> Inl AttributeError
      | Some bounds \<Rightarrow> center bounds)"

definition max_attempts :: nat where
  "max_attempts = 5"

definition dump_command :: "string list" where
  "dump_command = [''adb'', ''shell'', ''uiautomator'', ''dump'']"

definition cat_command :: "string list" where
  "cat_command = [''adb'', ''shell'', ''cat'', ''/sdcard/window_dump.xml'']"

text \<open>
  The \<^verbatim>\<open>for ... else\<close> loop with the attempts that are left: the button found
  (\<^verbatim>\<open>break\<close>), or \<open>None\<close> when the loop runs out (the \<^verbatim>\<open>else\<close> branch).
\<close>

fun attempts :: "env \<Rightarrow> nat \<Rightarrow> element option io" where
  "attempts env 0 s = (Inr None, s)"
| "attempts env (Suc k) s =
     bind_io (sleep 1) (\<lambda>_.
     bind_io (run_adb_command env dump_command) (\<lambda>_.
     bind_io (run_adb_command env cat_command) (\<lambda>stdout.
       case fromstring env stdout of
         None \<Rightarrow> raise_io ParseError
       | Some root \<Rightarrow>
           (case install_button (findall_node root) of
              Some button \<Rightarrow> return_io (Some button)
            | None \<Rightarrow> attempts env k)))) s"

definition find_install_button :: "env \<Rightarrow> (int \<times> int) option io" where
  "find_install_button env =
     bind_io (attempts env max_attempts)
       (\<lambda>found. case found of
                  None \<Rightarrow> return_io None
                | Some button \<Rightarrow>
                    (case button_center button of
                       Inl e \<Rightarrow> raise_io e
                     | Inr c \<Rightarrow> return_io (Some c)))"

text \<open>\<^verbatim>\<open>x, y = find_install_button()\<close>: unpacking \<^verbatim>\<open>None\<close> is a \<^verbatim>\<open>TypeError\<close>.\<close>

definition click_install_in_playstore :: "env \<Rightarrow> unit io" where
  "click_install_in_playstore env =
     bind_io (find_install_button env)
       (\<lambda>found. case found of
                  None \<Rightarrow> raise_io TypeError
                | Some (x, y) \<Rightarrow> tap env x y)"

definition navigate_playstore :: "env \<Rightarrow> string \<Rightarrow> unit io" where
  "navigate_playstore env package_name =
     bind_io (run_adb_command env
                [''adb'', ''shell'', ''am'', ''start'', ''-a'', ''android.intent.action.VIEW'',
                 ''-d'', ''market://details?id='' @ package_name])
       (\<lambda>_. return_io ())"

definition install_from_playstore :: "env \<Rightarrow> string \<Rightarrow> unit io" where
  "install_from_playstore env package_name =
     bind_io (navigate_playstore env package_name) (\<lambda>_. click_install_in_playstore env)"

section \<open>\<^verbatim>\<open>main.py\<close>\<close>

text \<open>
  The functions of \<^verbatim>\<open>main.py\<close> that share a name with one of \<^verbatim>\<open>adb.py\<close> carry the
  prefix \<open>main_\<close>. The three package lists of the module \<^verbatim>\<open>packages\<close> are parameters.
\<close>

definition main_connect :: "env \<Rightarrow> unit io" where
  "main_connect env =
     bind_io (is_connected env) (\<lambda>connected.
       if \<not> connected then
         bind_io (input_io env ''URL: '') (\<lambda>url.
         bind_io (connect env url) (\<lambda>_.
         bind_io (is_connected env) (\<lambda>connected'.
           if \<not> connected' then
             bind_io (print_io (''Seems like the device isn'' @ [CHR 0x27] @ ''t paired.'' @ [newline])) (\<lambda>_.
             bind_io (input_io env ''Pairing URL: '') (\<lambda>pairing_url.
             bind_io (input_io env ''Pairing code: '') (\<lambda>code.
             bind_io (pair env pairing_url code) (\<lambda>_.
             connect env url))))
           else return_io ())))
       else return_io ())"

text \<open>
  \<^verbatim>\<open>try: body except: print("Failed!!!") else: print(done)\<close>: the bare \<^verbatim>\<open>except\<close>
  catches every exception of the body.
\<close>

definition try_report :: "unit io \<Rightarrow> string \<Rightarrow> unit io" where
  "try_report body done s =
     (case body s of
        (Inl e, s') \<Rightarrow> print_io (''Failed!!!'' @ [newline]) s'
      | (Inr u, s') \<Rightarrow> print_io (done @ [newline]) s')"

text \<open>One round of each of the three loops, and the body of its \<^verbatim>\<open>try\<close>.\<close>

definition freeze_body :: "env \<Rightarrow> string \<Rightarrow> unit io" where
  "freeze_body env package = bind_io (clear_data env package) (\<lambda>_. disable env package)"

definition freeze_package :: "env \<Rightarrow> string \<Rightarrow> unit io" where
  "freeze_package env package =
     bind_io (is_enabled env package) (\<lambda>enabled.
       if \<not> enabled then return_io ()
       else
         bind_io (print_io (''Disabling: '' @ package @ ''... '')) (\<lambda>_.
         try_report (freeze_body env package) ''Done!''))"

definition freeze :: "env \<Rightarrow> string list \<Rightarrow> unit io" where
  "freeze env to_freezze = for_each (freeze_package env) to_freezze"

definition uninstall_body :: "env \<Rightarrow> string \<Rightarrow> string \<Rightarrow> unit io" where
  "uninstall_body env target package =
     bind_io (clear_data env package) (\<lambda>_.
     bind_io (extract' env package target) (\<lambda>_.
     uninstall env package))"

definition uninstall_package :: "env \<Rightarrow> string \<Rightarrow> string \<Rightarrow> unit io" where
  "uninstall_package env target package =
     bind_io (is_installed env package) (\<lambda>installed.
       if \<not> installed then return_io ()
       else
         bind_io (print_io (''Uninstalling: '' @ package @ ''... '')) (\<lambda>_.
         try_report (uninstall_body env target package) ''Done''))"

definition main_uninstall :: "env \<Rightarrow> string list \<Rightarrow> unit io" where
  "main_uninstall env to_uninstall =
     bind_io (mkdir env (sapps env)) (\<lambda>_.
     for_each (uninstall_package env (sapps env)) to_uninstall)"

definition install_package :: "env \<Rightarrow> string \<Rightarrow> unit io" where
  "install_package env package =
     bind_io (is_installed env package) (\<lambda>installed.
       if installed then return_io ()
       else
         bind_io (print_io (''Installing: '' @ package @ ''... '')) (\<lambda>_.
         try_report (install_from_playstore env package) ''Done''))"

definition main_install_from_playstore :: "env \<Rightarrow> string list \<Rightarrow> unit io" where
  "main_install_from_playstore env to_install_from_playstore =
     for_each (install_package env) to_install_from_playstore"

definition main :: "env \<Rightarrow> string list \<Rightarrow> string list \<Rightarrow> string list \<Rightarrow> unit io" where
  "main env to_freezze to_uninstall to_install_from_playstore =
     bind_io (main_connect env) (\<lambda>_.
     bind_io (freeze env to_freezze) (\<lambda>_.
     bind_io (main_uninstall env to_uninstall) (\<lambda>_.
     main_install_from_playstore env to_install_from_playstore)))"

section \<open>Notions used to state the properties\<close>


text \<open>The events of one attempt of the locator.\<close>

definition round_events :: trace where
  "round_events = [Sleep 1, Adb dump_command, Adb cat_command]"

text \<open>
  What the attempt that starts after the trace \<open>s\<close> retrieves: both commands return, and
  the document that the second one prints is parsed (\<open>Some root\<close>) or is malformed
  (\<open>None\<close>). \<open>Inl\<close> when one of the two commands raises.
\<close>

definition retrieved :: "env \<Rightarrow> trace \<Rightarrow> error + element option" where
  "retrieved env s =
     (case adb_reply env (s @ [Sleep 1]) dump_command of
        Inl e \<Rightarrow> Inl e
      | Inr _ \<Rightarrow>
          (case adb_reply env (s @ [Sleep 1, Adb dump_command]) cat_command of
             Inl e \<Rightarrow> Inl e
           | Inr stdout \<Rightarrow> Inr (fromstring env stdout)))"

text \<open>The attempt retrieves a document in which no node is labelled \<^verbatim>\<open>Install\<close>.\<close>

definition attempt_misses :: "env \<Rightarrow> trace \<Rightarrow> bool" where
  "attempt_misses env s =
     (case retrieved env s of
        Inr (Some root) \<Rightarrow>
          list_all (\<lambda>node. attrib_get node ''text'' \<noteq> Some ''Install'') (findall_node root)
      | _ \<Rightarrow> False)"

text \<open>The first \<open>j\<close> attempts from the trace \<open>s\<close> on all miss.\<close>

definition misses :: "env \<Rightarrow> nat \<Rightarrow> trace \<Rightarrow> bool" where
  "misses env j s = list_all (\<lambda>i. attempt_misses env (s @ concat (replicate i round_events))) [0..<j]"

text \<open>
  A device that answers a command by \<open>reply\<close>, whatever came before, and whose dumps
  parse to \<open>doc\<close>; nothing is typed on standard input.
\<close>

definition scripted_device :: "(string list \<Rightarrow> error + string) \<Rightarrow> element option \<Rightarrow> env" where
  "scripted_device reply doc =
     \<lparr>adb_reply = (\<lambda>h command. reply command),
      input_reply = (\<lambda>h prompt. Inr []),
      mkdir_reply = (\<lambda>h path. None),
      fromstring = (\<lambda>stdout. doc),
      sapps = ''/home/user/sapps''\<rparr>"

text \<open>
  What \<^verbatim>\<open>pm list packages FILTER\<close> prints on a device with the packages \<open>pkgs\<close>: one
  line \<^verbatim>\<open>package:NAME\<close> for each package whose name contains the filter.
\<close>

definition pm_list :: "string list \<Rightarrow> string \<Rightarrow> string" where
  "pm_list pkgs flt =
     concat (map (\<lambda>name. ''package:'' @ name @ [newline]) (filter (str_in flt) pkgs))"

text \<open>A device with the packages \<open>pkgs\<close>, all enabled, that answers the listing only.\<close>

definition pm_device :: "string list \<Rightarrow> string list \<Rightarrow> error + string" where
  "pm_device pkgs command =
     (case command of
        [a, b, c, d, e, f] \<Rightarrow>
          if [a, b, c, d, e] = [''adb'', ''shell'', ''pm'', ''list'', ''packages'']
          then Inr (pm_list pkgs (if f = ''-e'' then [] else f))
          else Inl CalledProcessError
      | _ \<Rightarrow> Inl CalledProcessError)"

text \<open>Sample documents and devices.\<close>

definition labelled_node :: "string \<Rightarrow> string \<Rightarrow> element" where
  "labelled_node label bounds = Element ''node'' [(''text'', label), (''bounds'', bounds)] []"


definition lowercase_only :: element where
  "lowercase_only = Element ''hierarchy'' [] [labelled_node ''install'' ''[10,20][30,40]'']"

definition attached :: string where
  "attached =
     ''List of devices attached'' @ [newline] @ ''192.168.1.5:5555'' @ [CHR 0x09] @ ''device''
       @ [newline, newline]"

text \<open>A device that prints \<open>stdout\<close> for every command, and one that fails every command.\<close>

definition answers :: "string \<Rightarrow> string list \<Rightarrow> error + string" where
  "answers stdout command = Inr stdout"

definition unreachable :: "string list \<Rightarrow> error + string" where
  "unreachable command = Inl CalledProcessError"

text \<open>A device on which only the package listing answers.\<close>

definition listing_only :: "string \<Rightarrow> string list \<Rightarrow> error + string" where
  "listing_only stdout command =
     (if take 5 command = [''adb'', ''shell'', ''pm'', ''list'', ''packages''] then Inr stdout
      else Inl CalledProcessError)"

section \<open>The effects, step by step\<close>

lemmas io_defs =
  return_io_def raise_io_def bind_io_def print_io_def input_io_def sleep_def mkdir_def
  run_adb_command_def

lemma for_each_append:
  "for_each body (xs @ ys) s =
     (case for_each body xs s of (Inl e, s') \<Rightarrow> (Inl e, s') | (Inr u, s') \<Rightarrow> for_each body ys s')"
  by (induction xs arbitrary: s) (auto split: prod.splits sum.splits)

lemma for_each_returns:
  "(\<And>x s. x \<in> set xs \<Longrightarrow> \<exists>s'. body x s = (Inr (), s')) \<Longrightarrow> \<exists>s'. for_each body xs s = (Inr (), s')"
proof (induction xs arbitrary: s)
  case Nil
  then show ?case by simp
next
  case (Cons x xs)
  from Cons.prems [of x s] obtain s1 where step: "body x s = (Inr (), s1)"
    by auto
  from Cons.IH [of s1] Cons.prems obtain s2 where "for_each body xs s1 = (Inr (), s2)"
    by auto
  with step show ?case by simp
qed

section \<open>Uninstalling one package\<close>

text \<open>
  C3. For every package name, \<^verbatim>\<open>adb.uninstall\<close> issues the uninstall for all users
  first and then, whatever that command did, the uninstall for user 0; the result is
  that of the second command alone, so only its failure reaches the caller.
\<close>

theorem uninstall_all_users_ignored_then_user_0:
  "uninstall env package_name s =
     ((case adb_reply env (s @ [Adb [''adb'', ''uninstall'', package_name]])
              [''adb'', ''uninstall'', ''--user'', ''0'', package_name] of
         Inl e \<Rightarrow> Inl e
       | Inr stdout \<Rightarrow> Inr ()),
      s @ [Adb [''adb'', ''uninstall'', package_name],
           Adb [''adb'', ''uninstall'', ''--user'', ''0'', package_name]])"
  by (simp add: uninstall_def io_defs split: sum.splits)

section \<open>The connect step\<close>

text \<open>
  C8. When the device is already connected, \<^verbatim>\<open>connect\<close> of \<^verbatim>\<open>main.py\<close> does
  nothing but the check itself: its only event is the command \<^verbatim>\<open>adb devices\<close>, so
  there is no prompt and no connect or pair command.
\<close>

theorem connect_noop_when_connected:
  "fst (is_connected env s) = Inr True \<Longrightarrow>
   main_connect env s = (Inr (), s @ [Adb [''adb'', ''devices'']])"
  by (auto simp: main_connect_def is_connected_def io_defs split: sum.splits)

theorem connect_noop_when_connected_witness:
  "fst (is_connected (scripted_device (answers attached) None) []) = Inr True
   \<and> main_connect (scripted_device (answers attached) None) []
       = (Inr (), [Adb [''adb'', ''devices'']])"
proof -
  have c: "fst (is_connected (scripted_device (answers attached) None) []) = Inr True"
    by (simp add: is_connected_def io_defs scripted_device_def answers_def unreachable_def attached_def splitlines_def
        newline_def is_linebreak_def)
  from connect_noop_when_connected [OF c] c show ?thesis by simp
qed

section \<open>Decimal numbers and the bounds string\<close>

text \<open>
  The equation of \<open>str_nat\<close> rewrites its own right-hand side; it is used by hand,
  one step at a time.
\<close>

declare str_nat.simps [simp del]


























section \<open>The locator\<close>

lemma install_button_SomeD:
  "install_button nodes = Some b \<Longrightarrow> b \<in> set nodes \<and> attrib_get b ''text'' = Some ''Install''"
  by (auto simp: install_button_def find_Some_iff)

lemma install_button_None_iff:
  "install_button nodes = None \<longleftrightarrow> (\<forall>n \<in> set nodes. attrib_get n ''text'' \<noteq> Some ''Install'')"
  by (auto simp: install_button_def find_None_iff)

lemma attempts_step_miss:
  "attempt_misses env s \<Longrightarrow> attempts env (Suc k) s = attempts env k (s @ round_events)"
  by (auto simp: attempt_misses_def retrieved_def round_events_def io_defs list_all_iff
      split: sum.splits option.splits dest: install_button_SomeD)

lemma misses_iff:
  "misses env j s \<longleftrightarrow> (\<forall>i<j. attempt_misses env (s @ concat (replicate i round_events)))"
  by (auto simp: misses_def list_all_iff)

lemma misses_Suc:
  "misses env (Suc j) s \<longleftrightarrow> attempt_misses env s \<and> misses env j (s @ round_events)"
  by (simp add: misses_iff All_less_Suc2)

lemma attempts_skip:
  "misses env j s \<Longrightarrow> attempts env (j + k) s = attempts env k (s @ concat (replicate j round_events))"
proof (induction j arbitrary: s)
  case 0
  then show ?case by simp
next
  case (Suc j)
  from Suc.prems have now: "attempt_misses env s" and later: "misses env j (s @ round_events)"
    by (simp_all add: misses_Suc)
  have "attempts env (Suc j + k) s = attempts env (j + k) (s @ round_events)"
    using attempts_step_miss [OF now] by simp
  also have "\<dots> = attempts env k ((s @ round_events) @ concat (replicate j round_events))"
    by (rule Suc.IH [OF later])
  finally show ?case by simp
qed

lemma attempts_step_malformed:
  "retrieved env s = Inr None \<Longrightarrow> attempts env (Suc k) s = (Inl ParseError, s @ round_events)"
  by (auto simp: retrieved_def round_events_def io_defs split: sum.splits option.splits)




lemma rounds_commute:
  "concat (replicate j r) @ r = r @ concat (replicate j r)"
  by (induction j) simp_all

lemma max_attempts_split: "j < max_attempts \<Longrightarrow> max_attempts = j + Suc (max_attempts - Suc j)"
  by simp

text \<open>
  C2. When each of the \<open>max_attempts\<close> attempts retrieves a document in which no node
  is labelled \<^verbatim>\<open>Install\<close>, \<^verbatim>\<open>find_install_button\<close> returns \<open>None\<close> after
  exactly that many attempts, and raises nothing.
\<close>

theorem find_install_button_absent:
  "misses env max_attempts s \<Longrightarrow>
   find_install_button env s = (Inr None, s @ concat (replicate max_attempts round_events))"
proof -
  assume m: "misses env max_attempts s"
  have "attempts env (max_attempts + 0) s
          = attempts env 0 (s @ concat (replicate max_attempts round_events))"
    by (rule attempts_skip [OF m])
  then show ?thesis
    by (simp add: find_install_button_def io_defs)
qed

theorem find_install_button_absent_witness:
  "misses (scripted_device (answers ''<hierarchy/>'') (Some lowercase_only)) max_attempts []
   \<and> find_install_button (scripted_device (answers ''<hierarchy/>'') (Some lowercase_only)) []
       = (Inr None, concat (replicate max_attempts round_events))"
proof -
  have m: "misses (scripted_device (answers ''<hierarchy/>'') (Some lowercase_only)) max_attempts []"
    by (simp add: misses_iff attempt_misses_def retrieved_def scripted_device_def answers_def unreachable_def lowercase_only_def
        labelled_node_def findall_node_def attrib_get_def)
  from find_install_button_absent [OF m] m show ?thesis by simp
qed

text \<open>
  C9. When the attempts so far have missed and the next one retrieves a malformed
  document, \<^verbatim>\<open>find_install_button\<close> raises the parse error at that attempt and makes
  no further attempt: the loop retries on "not found" only.
\<close>

theorem malformed_document_raises:
  assumes "misses env j s" and "j < max_attempts"
    and "retrieved env (s @ concat (replicate j round_events)) = Inr None"
  shows "find_install_button env s = (Inl ParseError, s @ concat (replicate (Suc j) round_events))"
proof -
  have "attempts env max_attempts s = attempts env (j + Suc (max_attempts - Suc j)) s"
    using max_attempts_split [OF assms(2)] by simp
  also have "\<dots> = attempts env (Suc (max_attempts - Suc j)) (s @ concat (replicate j round_events))"
    by (rule attempts_skip [OF assms(1)])
  also have "\<dots> = (Inl ParseError, (s @ concat (replicate j round_events)) @ round_events)"
    by (rule attempts_step_malformed [OF assms(3)])
  finally show ?thesis
    by (simp add: find_install_button_def io_defs rounds_commute)
qed

theorem malformed_document_raises_witness:
  "misses (scripted_device (answers ''<hierarchy>'') None) 0 []
   \<and> 0 < max_attempts
   \<and> retrieved (scripted_device (answers ''<hierarchy>'') None) ([] @ concat (replicate 0 round_events)) = Inr None
   \<and> find_install_button (scripted_device (answers ''<hierarchy>'') None) []
       = (Inl ParseError, round_events)"
proof -
  have a: "misses (scripted_device (answers ''<hierarchy>'') None) 0 []"
    by (simp add: misses_def)
  have b: "0 < max_attempts"
    by (simp add: max_attempts_def)
  have c: "retrieved (scripted_device (answers ''<hierarchy>'') None) ([] @ concat (replicate 0 round_events)) = Inr None"
    by (simp add: retrieved_def scripted_device_def answers_def unreachable_def)
  from malformed_document_raises [OF a b c] a b c show ?thesis by simp
qed



text \<open>
  C6. The label is compared by equality of strings: a node whose label is not exactly
  \<^verbatim>\<open>Install\<close>, as \<^verbatim>\<open>install\<close>, is never the one selected, and a list of nodes none
  of which is labelled exactly \<^verbatim>\<open>Install\<close> has no match.
\<close>

theorem label_match_is_exact:
  "(attrib_get node ''text'' = Some label \<and> label \<noteq> ''Install'' \<longrightarrow> install_button nodes \<noteq> Some node)
   \<and> ((\<forall>n \<in> set nodes. attrib_get n ''text'' \<noteq> Some ''Install'') \<longrightarrow> install_button nodes = None)
   \<and> install_button [labelled_node ''install'' bounds] = None"
  by (auto simp: install_button_None_iff labelled_node_def attrib_get_def dest: install_button_SomeD)

theorem label_match_is_exact_witness:
  "attrib_get (labelled_node ''install'' ''[10,20][30,40]'') ''text'' = Some ''install''
   \<and> ''install'' \<noteq> ''Install''
   \<and> findall_node lowercase_only = [labelled_node ''install'' ''[10,20][30,40]'']
   \<and> install_button (findall_node lowercase_only) \<noteq> Some (labelled_node ''install'' ''[10,20][30,40]'')
   \<and> install_button (findall_node lowercase_only) = None"
  using label_match_is_exact [of "labelled_node ''install'' ''[10,20][30,40]''" "''install''"
      "findall_node lowercase_only" "''[10,20][30,40]''"]
  by (simp add: labelled_node_def attrib_get_def lowercase_only_def findall_node_def)

section \<open>The installed and enabled checks\<close>

lemma str_in_iff: "str_in a b \<longleftrightarrow> (\<exists>x y. b = x @ a @ y)"
proof -
  have "str_in a b = sublist a b"
    by (induction b) (simp_all add: sublist_Cons_right)
  then show ?thesis by (simp add: sublist_def)
qed

text \<open>
  C10. \<^verbatim>\<open>is_installed\<close> and \<^verbatim>\<open>is_enabled\<close> return whether the package name occurs
  somewhere in the output of the listing command, as a substring. So there is a device
  on which a package is not installed, its name is part of the name of a package that is,
  and both checks return \<open>True\<close> for it.
\<close>

theorem installed_check_is_substring_test:
  "(adb_reply env s [''adb'', ''shell'', ''pm'', ''list'', ''packages'', p] = Inr stdout \<longrightarrow>
      is_installed env p s =
        (Inr (\<exists>x y. stdout = x @ p @ y), s @ [Adb [''adb'', ''shell'', ''pm'', ''list'', ''packages'', p]]))
   \<and> (adb_reply env s [''adb'', ''shell'', ''pm'', ''list'', ''packages'', ''-e''] = Inr stdout' \<longrightarrow>
      is_enabled env p s =
        (Inr (\<exists>x y. stdout' = x @ p @ y), s @ [Adb [''adb'', ''shell'', ''pm'', ''list'', ''packages'', ''-e'']]))
   \<and> (\<exists>pkgs q. q \<notin> set pkgs \<and> list_ex (str_in q) pkgs
         \<and> fst (is_installed (scripted_device (pm_device pkgs) None) q []) = Inr True
         \<and> fst (is_enabled (scripted_device (pm_device pkgs) None) q []) = Inr True)"
proof -
  have "''com.android.chrome'' \<notin> set [''com.android.chrome.beta'']
        \<and> list_ex (str_in ''com.android.chrome'') [''com.android.chrome.beta'']
        \<and> fst (is_installed (scripted_device (pm_device [''com.android.chrome.beta'']) None) ''com.android.chrome'' []) = Inr True
        \<and> fst (is_enabled (scripted_device (pm_device [''com.android.chrome.beta'']) None) ''com.android.chrome'' []) = Inr True"
    by (simp add: is_installed_def is_enabled_def io_defs scripted_device_def answers_def unreachable_def pm_device_def pm_list_def)
  then have "\<exists>pkgs q. q \<notin> set pkgs \<and> list_ex (str_in q) pkgs
         \<and> fst (is_installed (scripted_device (pm_device pkgs) None) q []) = Inr True
         \<and> fst (is_enabled (scripted_device (pm_device pkgs) None) q []) = Inr True"
    by blast
  then show ?thesis
    by (simp add: is_installed_def is_enabled_def io_defs str_in_iff)
qed

theorem installed_check_is_substring_test_witness:
  "is_installed (scripted_device (pm_device [''com.android.chrome.beta'']) None) ''com.android.chrome'' []
     = (Inr True, [Adb [''adb'', ''shell'', ''pm'', ''list'', ''packages'', ''com.android.chrome'']])
   \<and> is_enabled (scripted_device (pm_device [''com.android.chrome.beta'']) None) ''com.android.chrome'' []
     = (Inr True, [Adb [''adb'', ''shell'', ''pm'', ''list'', ''packages'', ''-e'']])"
proof -
  let ?env = "scripted_device (pm_device [''com.android.chrome.beta'']) None"
  let ?out = "''package:com.android.chrome.beta'' @ [newline]"
  have a: "adb_reply ?env [] [''adb'', ''shell'', ''pm'', ''list'', ''packages'', ''com.android.chrome''] = Inr ?out"
    by (simp add: scripted_device_def answers_def unreachable_def pm_device_def pm_list_def)
  have b: "adb_reply ?env [] [''adb'', ''shell'', ''pm'', ''list'', ''packages'', ''-e''] = Inr ?out"
    by (simp add: scripted_device_def answers_def unreachable_def pm_device_def pm_list_def)
  have c: "\<exists>x y. ?out = x @ ''com.android.chrome'' @ y"
    by (rule exI [of _ "''package:''"], rule exI [of _ "''.beta'' @ [newline]"]) simp
  from installed_check_is_substring_test [of ?env "[]" "''com.android.chrome''" ?out ?out] a b c
  show ?thesis by simp
qed

section \<open>The three batches\<close>

text \<open>
  C4. When the packages before \<open>p\<close> in the uninstall list have been processed and
  \<^verbatim>\<open>is_installed\<close> returns \<open>False\<close> for \<open>p\<close>, the round of \<open>p\<close> consists of that check
  alone (no data clearing, no extraction, no uninstall command) and the loop goes on with
  the packages after \<open>p\<close>.
\<close>

theorem not_installed_package_is_skipped:
  assumes "main_uninstall env qs s = (Inr (), s1)"
    and "fst (is_installed env p s1) = Inr False"
  shows "uninstall_package env (sapps env) p s1
           = (Inr (), s1 @ [Adb [''adb'', ''shell'', ''pm'', ''list'', ''packages'', p]])
         \<and> main_uninstall env (qs @ p # ps) s
           = for_each (uninstall_package env (sapps env)) ps
               (s1 @ [Adb [''adb'', ''shell'', ''pm'', ''list'', ''packages'', p]])"
proof -
  have one: "uninstall_package env (sapps env) p s1
           = (Inr (), s1 @ [Adb [''adb'', ''shell'', ''pm'', ''list'', ''packages'', p]])"
    using assms(2) by (auto simp: uninstall_package_def is_installed_def io_defs split: sum.splits)
  from assms(1) one show ?thesis
    by (auto simp: main_uninstall_def bind_io_def for_each_append split: sum.splits prod.splits)
qed

theorem not_installed_package_is_skipped_witness:
  "main_uninstall (scripted_device (pm_device [''com.android.chrome'']) None) [] [] = (Inr (), [Mkdir ''/home/user/sapps''])
   \<and> fst (is_installed (scripted_device (pm_device [''com.android.chrome'']) None) ''com.example.absent'' [Mkdir ''/home/user/sapps'']) = Inr False
   \<and> main_uninstall (scripted_device (pm_device [''com.android.chrome'']) None) [''com.example.absent''] []
       = (Inr (), [Mkdir ''/home/user/sapps'', Adb [''adb'', ''shell'', ''pm'', ''list'', ''packages'', ''com.example.absent'']])"
proof -
  let ?env = "scripted_device (pm_device [''com.android.chrome'']) None"
  have a: "main_uninstall ?env [] [] = (Inr (), [Mkdir ''/home/user/sapps''])"
    by (simp add: main_uninstall_def io_defs scripted_device_def answers_def unreachable_def)
  have b: "fst (is_installed ?env ''com.example.absent'' [Mkdir ''/home/user/sapps'']) = Inr False"
    by (simp add: is_installed_def io_defs scripted_device_def answers_def unreachable_def pm_device_def pm_list_def)
  from not_installed_package_is_skipped [OF a b, of "[]"] a b show ?thesis by simp
qed

lemma try_report_failed:
  "body s = (Inl e, s') \<Longrightarrow> try_report body done s = (Inr (), s' @ [Print (''Failed!!!'' @ [newline])])"
  by (simp add: try_report_def print_io_def)

lemma try_report_returns: "\<exists>s'. try_report body done s = (Inr (), s')"
  by (cases "body s") (auto simp: try_report_def print_io_def split: sum.splits)

lemma for_each_at:
  "for_each body qs s = (Inr (), s0) \<Longrightarrow>
   for_each body (qs @ p # ps) s =
     (case body p s0 of (Inl e, s') \<Rightarrow> (Inl e, s') | (Inr u, s') \<Rightarrow> for_each body ps s')"
  by (simp add: for_each_append)

lemma freeze_package_failed:
  "is_enabled env p s = (Inr True, s1) \<Longrightarrow>
   freeze_body env p (s1 @ [Print (''Disabling: '' @ p @ ''... '')]) = (Inl e, s2) \<Longrightarrow>
   freeze_package env p s = (Inr (), s2 @ [Print (''Failed!!!'' @ [newline])])"
  by (simp add: freeze_package_def bind_io_def print_io_def try_report_failed)

lemma uninstall_package_failed:
  "is_installed env p s = (Inr True, s1) \<Longrightarrow>
   uninstall_body env t p (s1 @ [Print (''Uninstalling: '' @ p @ ''... '')]) = (Inl e, s2) \<Longrightarrow>
   uninstall_package env t p s = (Inr (), s2 @ [Print (''Failed!!!'' @ [newline])])"
  by (simp add: uninstall_package_def bind_io_def print_io_def try_report_failed)

lemma install_package_failed:
  "is_installed env p s = (Inr False, s1) \<Longrightarrow>
   install_from_playstore env p (s1 @ [Print (''Installing: '' @ p @ ''... '')]) = (Inl e, s2) \<Longrightarrow>
   install_package env p s = (Inr (), s2 @ [Print (''Failed!!!'' @ [newline])])"
  by (simp add: install_package_def bind_io_def print_io_def try_report_failed)

lemma freeze_package_returns:
  "adb_reply env s [''adb'', ''shell'', ''pm'', ''list'', ''packages'', ''-e''] = Inr stdout \<Longrightarrow>
   \<exists>s'. freeze_package env p s = (Inr (), s')"
  using try_report_returns
  by (simp add: freeze_package_def is_enabled_def bind_io_def print_io_def return_io_def
      run_adb_command_def)

lemma uninstall_package_returns:
  "adb_reply env s [''adb'', ''shell'', ''pm'', ''list'', ''packages'', p] = Inr stdout \<Longrightarrow>
   \<exists>s'. uninstall_package env t p s = (Inr (), s')"
  using try_report_returns
  by (simp add: uninstall_package_def is_installed_def bind_io_def print_io_def return_io_def
      run_adb_command_def)

lemma install_package_returns:
  "adb_reply env s [''adb'', ''shell'', ''pm'', ''list'', ''packages'', p] = Inr stdout \<Longrightarrow>
   \<exists>s'. install_package env p s = (Inr (), s')"
  using try_report_returns
  by (simp add: install_package_def is_installed_def bind_io_def print_io_def return_io_def
      run_adb_command_def)


text \<open>
  C7, as the code has it. In each of the three batches, for a package at any position of
  the list: an exception raised inside the \<^verbatim>\<open>try\<close> of its round (clearing the data
  and disabling; clearing, extracting and uninstalling; installing from the store) is
  caught, \<^verbatim>\<open>Failed!!!\<close> is printed and the loop goes on with the next package. The
  \<^verbatim>\<open>is_enabled\<close> or \<^verbatim>\<open>is_installed\<close> check of the round stands before the \<^verbatim>\<open>try\<close>:
  when the listing command never fails (and, for the uninstall batch, the backup directory
  is made), the batch returns without an exception.
\<close>

theorem failure_inside_try_is_swallowed:
  "(freeze env qs s = (Inr (), s0) \<and> is_enabled env p s0 = (Inr True, s1)
      \<and> freeze_body env p (s1 @ [Print (''Disabling: '' @ p @ ''... '')]) = (Inl e, s2)
    \<longrightarrow> freeze env (qs @ p # ps) s = freeze env ps (s2 @ [Print (''Failed!!!'' @ [newline])]))
   \<and> (main_uninstall env qs s = (Inr (), s0) \<and> is_installed env p s0 = (Inr True, s1)
      \<and> uninstall_body env (sapps env) p (s1 @ [Print (''Uninstalling: '' @ p @ ''... '')]) = (Inl e, s2)
    \<longrightarrow> main_uninstall env (qs @ p # ps) s
          = for_each (uninstall_package env (sapps env)) ps (s2 @ [Print (''Failed!!!'' @ [newline])]))
   \<and> (main_install_from_playstore env qs s = (Inr (), s0) \<and> is_installed env p s0 = (Inr False, s1)
      \<and> install_from_playstore env p (s1 @ [Print (''Installing: '' @ p @ ''... '')]) = (Inl e, s2)
    \<longrightarrow> main_install_from_playstore env (qs @ p # ps) s
          = main_install_from_playstore env ps (s2 @ [Print (''Failed!!!'' @ [newline])]))
   \<and> ((\<forall>h. \<exists>stdout. adb_reply env h [''adb'', ''shell'', ''pm'', ''list'', ''packages'', ''-e''] = Inr stdout)
    \<longrightarrow> (\<exists>s'. freeze env ps s = (Inr (), s')))
   \<and> ((\<forall>h. \<forall>q \<in> set ps. \<exists>stdout. adb_reply env h [''adb'', ''shell'', ''pm'', ''list'', ''packages'', q] = Inr stdout)
    \<longrightarrow> (mkdir_reply env s (sapps env) = None \<longrightarrow> (\<exists>s'. main_uninstall env ps s = (Inr (), s')))
        \<and> (\<exists>s'. main_install_from_playstore env ps s = (Inr (), s')))"
proof (intro conjI impI)
  assume "freeze env qs s = (Inr (), s0) \<and> is_enabled env p s0 = (Inr True, s1)
      \<and> freeze_body env p (s1 @ [Print (''Disabling: '' @ p @ ''... '')]) = (Inl e, s2)"
  then show "freeze env (qs @ p # ps) s = freeze env ps (s2 @ [Print (''Failed!!!'' @ [newline])])"
    by (simp add: freeze_def for_each_at freeze_package_failed)
next
  assume a: "main_uninstall env qs s = (Inr (), s0) \<and> is_installed env p s0 = (Inr True, s1)
      \<and> uninstall_body env (sapps env) p (s1 @ [Print (''Uninstalling: '' @ p @ ''... '')]) = (Inl e, s2)"
  then have "uninstall_package env (sapps env) p s0 = (Inr (), s2 @ [Print (''Failed!!!'' @ [newline])])"
    by (simp add: uninstall_package_failed)
  with a show "main_uninstall env (qs @ p # ps) s
          = for_each (uninstall_package env (sapps env)) ps (s2 @ [Print (''Failed!!!'' @ [newline])])"
    by (auto simp: main_uninstall_def bind_io_def for_each_append split: sum.splits prod.splits)
next
  assume "main_install_from_playstore env qs s = (Inr (), s0) \<and> is_installed env p s0 = (Inr False, s1)
      \<and> install_from_playstore env p (s1 @ [Print (''Installing: '' @ p @ ''... '')]) = (Inl e, s2)"
  then show "main_install_from_playstore env (qs @ p # ps) s
          = main_install_from_playstore env ps (s2 @ [Print (''Failed!!!'' @ [newline])])"
    by (simp add: main_install_from_playstore_def for_each_at install_package_failed)
next
  assume "\<forall>h. \<exists>stdout. adb_reply env h [''adb'', ''shell'', ''pm'', ''list'', ''packages'', ''-e''] = Inr stdout"
  then have "\<And>x h. \<exists>s'. freeze_package env x h = (Inr (), s')"
    using freeze_package_returns by blast
  then show "\<exists>s'. freeze env ps s = (Inr (), s')"
    unfolding freeze_def by (intro for_each_returns)
next
  assume a: "\<forall>h. \<forall>q \<in> set ps. \<exists>stdout. adb_reply env h [''adb'', ''shell'', ''pm'', ''list'', ''packages'', q] = Inr stdout"
    and m: "mkdir_reply env s (sapps env) = None"
  from a have "\<And>x h. x \<in> set ps \<Longrightarrow> \<exists>s'. uninstall_package env (sapps env) x h = (Inr (), s')"
    using uninstall_package_returns by blast
  then have "\<exists>s'. for_each (uninstall_package env (sapps env)) ps (s @ [Mkdir (sapps env)]) = (Inr (), s')"
    by (intro for_each_returns)
  with m show "\<exists>s'. main_uninstall env ps s = (Inr (), s')"
    by (simp add: main_uninstall_def bind_io_def mkdir_def)
next
  assume a: "\<forall>h. \<forall>q \<in> set ps. \<exists>stdout. adb_reply env h [''adb'', ''shell'', ''pm'', ''list'', ''packages'', q] = Inr stdout"
  then have "\<And>x h. x \<in> set ps \<Longrightarrow> \<exists>s'. install_package env x h = (Inr (), s')"
    using install_package_returns by blast
  then show "\<exists>s'. main_install_from_playstore env ps s = (Inr (), s')"
    unfolding main_install_from_playstore_def by (intro for_each_returns)
qed

theorem failure_inside_try_is_swallowed_witness:
  "freeze (scripted_device (listing_only ''package:com.example'') None) [''com.example''] []
     = (Inr (), [Adb [''adb'', ''shell'', ''pm'', ''list'', ''packages'', ''-e''],
                 Print ''Disabling: com.example... '',
                 Adb [''adb'', ''shell'', ''pm'', ''clear'', ''com.example''],
                 Print (''Failed!!!'' @ [newline])])
   \<and> main_uninstall (scripted_device (listing_only ''package:com.example'') None) [''com.example''] []
     = (Inr (), [Mkdir ''/home/user/sapps'',
                 Adb [''adb'', ''shell'', ''pm'', ''list'', ''packages'', ''com.example''],
                 Print ''Uninstalling: com.example... '',
                 Adb [''adb'', ''shell'', ''pm'', ''clear'', ''com.example''],
                 Print (''Failed!!!'' @ [newline])])
   \<and> main_install_from_playstore (scripted_device (listing_only []) None) [''com.example''] []
     = (Inr (), [Adb [''adb'', ''shell'', ''pm'', ''list'', ''packages'', ''com.example''],
                 Print ''Installing: com.example... '',
                 Adb [''adb'', ''shell'', ''am'', ''start'', ''-a'', ''android.intent.action.VIEW'',
                      ''-d'', ''market://details?id=com.example''],
                 Print (''Failed!!!'' @ [newline])])"
proof -
  let ?A = "scripted_device (listing_only ''package:com.example'') None"
  let ?B = "scripted_device (listing_only []) None"
  let ?p = "''com.example''"
  let ?e = "[Adb [''adb'', ''shell'', ''pm'', ''list'', ''packages'', ''-e'']]"
  let ?l = "[Adb [''adb'', ''shell'', ''pm'', ''list'', ''packages'', ?p]]"
  let ?c = "[Adb [''adb'', ''shell'', ''pm'', ''clear'', ?p]]"
  let ?n = "[Adb [''adb'', ''shell'', ''am'', ''start'', ''-a'', ''android.intent.action.VIEW'',
                      ''-d'', ''market://details?id=com.example'']]"
  have f: "freeze ?A [] [] = (Inr (), []) \<and> is_enabled ?A ?p [] = (Inr True, ?e)
      \<and> freeze_body ?A ?p (?e @ [Print (''Disabling: '' @ ?p @ ''... '')])
          = (Inl CalledProcessError, ?e @ [Print (''Disabling: '' @ ?p @ ''... '')] @ ?c)"
    by (simp add: freeze_def is_enabled_def freeze_body_def clear_data_def io_defs
        scripted_device_def answers_def unreachable_def listing_only_def)
  have u: "main_uninstall ?A [] [] = (Inr (), [Mkdir ''/home/user/sapps''])
      \<and> is_installed ?A ?p [Mkdir ''/home/user/sapps''] = (Inr True, Mkdir ''/home/user/sapps'' # ?l)
      \<and> uninstall_body ?A (sapps ?A) ?p ((Mkdir ''/home/user/sapps'' # ?l) @ [Print (''Uninstalling: '' @ ?p @ ''... '')])
          = (Inl CalledProcessError, Mkdir ''/home/user/sapps'' # ?l @ [Print (''Uninstalling: '' @ ?p @ ''... '')] @ ?c)"
    by (simp add: main_uninstall_def is_installed_def uninstall_body_def clear_data_def io_defs
        scripted_device_def answers_def unreachable_def listing_only_def)
  have i: "main_install_from_playstore ?B [] [] = (Inr (), []) \<and> is_installed ?B ?p [] = (Inr False, ?l)
      \<and> install_from_playstore ?B ?p (?l @ [Print (''Installing: '' @ ?p @ ''... '')])
          = (Inl CalledProcessError, ?l @ [Print (''Installing: '' @ ?p @ ''... '')] @ ?n)"
    by (simp add: main_install_from_playstore_def is_installed_def install_from_playstore_def
        navigate_playstore_def io_defs scripted_device_def answers_def unreachable_def listing_only_def)
  note t = failure_inside_try_is_swallowed
  from t [THEN conjunct1, rule_format, OF f, of "[]"]
    t [THEN conjunct2, THEN conjunct1, rule_format, OF u, of "[]"]
    t [THEN conjunct2, THEN conjunct2, THEN conjunct1, rule_format, OF i, of "[]"]
  show ?thesis
    by (simp add: freeze_def main_install_from_playstore_def)
qed

text \<open>
  The check itself is outside the \<^verbatim>\<open>try\<close>: on a device where the listing command
  fails, the freeze batch raises at the first package and the second one is never looked
  at, so "any failure while processing a package is swallowed" does not hold.
\<close>

theorem check_failure_aborts_batch:
  "freeze (scripted_device unreachable None) [''com.example.a'', ''com.example.b''] []
     = (Inl CalledProcessError, [Adb [''adb'', ''shell'', ''pm'', ''list'', ''packages'', ''-e'']])"
  by (simp add: freeze_def freeze_package_def is_enabled_def io_defs scripted_device_def answers_def unreachable_def)


end
